theory Spec2Isabelle
  imports Main
begin

section \<open>Map types (pkg/bpf/map.go)\<close>

text \<open>
  \<^verbatim>\<open>type MapType int\<close>: any integer is a value of the type, the named constants are
  the enumeration. No arithmetic on a map type but the loop counter of the prober, which
  stays below \<open>MapTypeMaximum\<close>, so the integers are not bounded here.
\<close>

type_synonym MapType = int

definition MapTypeUnspec :: MapType where "MapTypeUnspec = 0"
definition MapTypeHash :: MapType where "MapTypeHash = 1"
definition MapTypeArray :: MapType where "MapTypeArray = 2"
definition MapTypeProgArray :: MapType where "MapTypeProgArray = 3"
definition MapTypePerfEventArray :: MapType where "MapTypePerfEventArray = 4"
definition MapTypePerCPUHash :: MapType where "MapTypePerCPUHash = 5"
definition MapTypePerCPUArray :: MapType where "MapTypePerCPUArray = 6"
definition MapTypeStackTrace :: MapType where "MapTypeStackTrace = 7"
definition MapTypeCgroupArray :: MapType where "MapTypeCgroupArray = 8"
definition MapTypeLRUHash :: MapType where "MapTypeLRUHash = 9"
definition MapTypeLRUPerCPUHash :: MapType where "MapTypeLRUPerCPUHash = 10"
definition MapTypeLPMTrie :: MapType where "MapTypeLPMTrie = 11"
definition MapTypeArrayOfMaps :: MapType where "MapTypeArrayOfMaps = 12"
definition MapTypeHashOfMaps :: MapType where "MapTypeHashOfMaps = 13"
definition MapTypeDevMap :: MapType where "MapTypeDevMap = 14"
definition MapTypeSockMap :: MapType where "MapTypeSockMap = 15"
definition MapTypeCPUMap :: MapType where "MapTypeCPUMap = 16"
definition MapTypeXSKMap :: MapType where "MapTypeXSKMap = 17"
definition MapTypeSockHash :: MapType where "MapTypeSockHash = 18"
definition MapTypeMaximum :: MapType where "MapTypeMaximum = 19"

text \<open>The maximum consecutive errors syncing before the controller bails out.\<close>

definition maxSyncErrors :: nat where "maxSyncErrors = 512"

text \<open>
  The values the enumeration names as map types: \<open>MapTypeUnspec\<close> up to, and not
  including, the sentinel \<open>MapTypeMaximum\<close>.
\<close>

definition inEnumeration :: "MapType \<Rightarrow> bool" where
  "inEnumeration t = (MapTypeUnspec \<le> t \<and> t < MapTypeMaximum)"

text \<open>\<^verbatim>\<open>func (t MapType) String() string\<close>: a switch of seventeen cases and a default.\<close>

definition MapType_String :: "MapType \<Rightarrow> string" where
  "MapType_String t =
     (if t = MapTypeHash then ''Hash''
      else if t = MapTypeArray then ''Array''
      else if t = MapTypeProgArray then ''Program array''
      else if t = MapTypePerfEventArray then ''Event array''
      else if t = MapTypePerCPUHash then ''Per-CPU hash''
      else if t = MapTypePerCPUArray then ''Per-CPU array''
      else if t = MapTypeStackTrace then ''Stack trace''
      else if t = MapTypeCgroupArray then ''Cgroup array''
      else if t = MapTypeLRUHash then ''LRU hash''
      else if t = MapTypeLRUPerCPUHash then ''LRU per-CPU hash''
      else if t = MapTypeLPMTrie then ''Longest prefix match trie''
      else if t = MapTypeArrayOfMaps then ''Array of maps''
      else if t = MapTypeHashOfMaps then ''Hash of maps''
      else if t = MapTypeDevMap then ''Device Map''
      else if t = MapTypeSockMap then ''Socket Map''
      else if t = MapTypeCPUMap then ''CPU Redirect Map''
      else if t = MapTypeSockHash then ''Socket Hash''
      else ''Unknown'')"

definition allowsPreallocation :: "MapType \<Rightarrow> bool" where
  "allowsPreallocation t = (if t = MapTypeLPMTrie then False else True)"

definition requiresPreallocation :: "MapType \<Rightarrow> bool" where
  "requiresPreallocation t =
     (if t = MapTypeHash \<or> t = MapTypePerCPUHash \<or> t = MapTypeLPMTrie \<or> t = MapTypeHashOfMaps
      then False else True)"

text \<open>
  \<^verbatim>\<open>mapTypeToFeatureString\<close>: the string defined by run_probes.sh for a map type; the
  zero value of a Go string, the empty string, for a type that has none.
\<close>

definition mapTypeToFeatureString :: "MapType \<Rightarrow> string" where
  "mapTypeToFeatureString mt =
     (if mt = MapTypeLPMTrie then ''#define HAVE_LPM_MAP_TYPE''
      else if mt = MapTypeLRUHash then ''#define HAVE_LRU_MAP_TYPE''
      else [])"

section \<open>The table of supported map types\<close>

text \<open>
  \<^verbatim>\<open>supportedMapTypes = make(map[MapType]bool)\<close>, a package variable: the functions
  below take the table and return the new one. Reading a key that has no entry gives the
  zero value \<open>false\<close>.
\<close>

type_synonym SupportTable = "MapType \<rightharpoonup> bool"

definition supportedMapTypes_init :: SupportTable where
  "supportedMapTypes_init = Map.empty"

definition index_bool :: "SupportTable \<Rightarrow> MapType \<Rightarrow> bool" where
  "index_bool tbl t = (case tbl t of None \<Rightarrow> False | Some b \<Rightarrow> b)"

text \<open>
  \<^verbatim>\<open>GetMapType\<close>: the case of \<open>MapTypeLPMTrie\<close> falls through to the one of
  \<open>MapTypeLRUHash\<close>; every other value leaves the switch untouched.
\<close>

definition GetMapType :: "MapType \<Rightarrow> SupportTable \<Rightarrow> MapType" where
  "GetMapType t tbl =
     (if t = MapTypeLPMTrie \<or> t = MapTypeLRUHash
      then (if \<not> index_bool tbl t then MapTypeHash else t)
      else t)"

section \<open>The feature prober\<close>

text \<open>
  \<^verbatim>\<open>bytes.Compare\<close> of the Go library: the lexicographic comparison of two byte
  slices, \<open>0\<close> when they are equal, \<open>-1\<close> when the first is smaller and \<open>1\<close> when
  it is greater. A \<open>char\<close> is a byte.
\<close>

fun bytes_Compare :: "string \<Rightarrow> string \<Rightarrow> int" where
  "bytes_Compare [] [] = 0"
| "bytes_Compare [] (y # ys) = - 1"
| "bytes_Compare (x # xs) [] = 1"
| "bytes_Compare (x # xs) (y # ys) =
     (if (of_char x :: nat) < of_char y then - 1
      else if (of_char y :: nat) < of_char x then 1
      else bytes_Compare xs ys)"

datatype error = FatalOpenFailed

text \<open>
  The values of the loop \<^verbatim>\<open>for mapType := MapTypeHash; mapType < MapTypeMaximum; mapType++\<close>,
  in its order.
\<close>

definition mapTypeLoop :: "MapType list" where
  "mapTypeLoop = [MapTypeHash..MapTypeMaximum - 1]"

text \<open>The body of the inner loop of the scan, for one token of the scanner and one map type.\<close>

definition probeLine :: "string \<Rightarrow> MapType \<Rightarrow> SupportTable \<Rightarrow> SupportTable" where
  "probeLine line mapType tbl =
     (let featureString = mapTypeToFeatureString mapType
      in if featureString \<noteq> [] \<and> bytes_Compare line featureString = 0
         then tbl(mapType \<mapsto> True) else tbl)"

definition scanLine :: "string \<Rightarrow> SupportTable \<Rightarrow> SupportTable" where
  "scanLine line tbl = fold (probeLine line) mapTypeLoop tbl"

text \<open>The body of the second loop, run once the scan has ended.\<close>

definition recordUnprobed :: "MapType \<Rightarrow> SupportTable \<Rightarrow> SupportTable" where
  "recordUnprobed mapType tbl =
     (if mapTypeToFeatureString mapType = [] then tbl
      else if tbl mapType = None then tbl(mapType \<mapsto> False)
      else tbl)"

text \<open>
  The scanner of the Go library, \<^verbatim>\<open>bufio.NewScanner\<close> with its default split function
  \<^verbatim>\<open>ScanLines\<close>, as a function from the bytes of the file to the tokens that
  \<^verbatim>\<open>scanner.Scan\<close> yields one after the other. A token is a line without its
  end-of-line marker, a newline with the carriage return before it when there is one
  (\<^verbatim>\<open>dropCR\<close>); a last line that has no newline is a token too, and an empty rest is
  none. The buffer of the scanner grows up to \<^verbatim>\<open>MaxScanTokenSize\<close> bytes: at a line
  that does not fit there with its newline, \<^verbatim>\<open>Scan\<close> returns false with
  \<^verbatim>\<open>ErrTooLong\<close>, which ends the loop of \<^verbatim>\<open>ReadFeatureProbes\<close>; the error of the
  scanner is not read there.
\<close>

definition MaxScanTokenSize :: nat where
  "MaxScanTokenSize = 64 * 1024"

definition newline :: char where
  "newline = CHR 0x0A"

definition dropCR :: "string \<Rightarrow> string" where
  "dropCR data = (if data \<noteq> [] \<and> last data = CHR 0x0D then butlast data else data)"

definition firstLine :: "string \<Rightarrow> string" where
  "firstLine data = takeWhile (\<lambda>c. c \<noteq> newline) data"

definition afterLine :: "string \<Rightarrow> string" where
  "afterLine data = drop (Suc (length (firstLine data))) data"

function scanTokens :: "string \<Rightarrow> string list" where
  "scanTokens data =
     (if data = [] then []
      else if MaxScanTokenSize \<le> length (firstLine data) then []
      else dropCR (firstLine data) # scanTokens (afterLine data))"
  by pat_completeness auto
termination
  by (relation "measure length") (auto simp add: afterLine_def)

declare scanTokens.simps [simp del]

text \<open>
  \<^verbatim>\<open>ReadFeatureProbes\<close>. The file is given as what the code sees of it: \<open>None\<close> when
  \<^verbatim>\<open>os.Open\<close> fails, which ends the process in \<^verbatim>\<open>log.Fatal\<close>, and otherwise the
  tokens that \<^verbatim>\<open>scanner.Scan\<close> yields one after the other, which are the lines of the
  file without their end-of-line markers (a newline, with the carriage return before it
  when there is one); the scanner yields nothing from a line on that does not fit its
  buffer. The table of the package is passed in and the updated table is returned.
\<close>

definition ReadFeatureProbes :: "string list option \<Rightarrow> SupportTable \<Rightarrow> error + SupportTable" where
  "ReadFeatureProbes file tbl =
     (case file of
        None \<Rightarrow> Inl FatalOpenFailed
      | Some lines \<Rightarrow> Inr (fold recordUnprobed mapTypeLoop (fold scanLine lines tbl)))"

text \<open>
  \<^verbatim>\<open>ReadFeatureProbes\<close> on the bytes of the file: \<open>None\<close> when the file cannot be
  opened, and otherwise the content, which the scanner cuts into tokens.
\<close>

definition ReadFeatureProbes_file :: "string option \<Rightarrow> SupportTable \<Rightarrow> error + SupportTable" where
  "ReadFeatureProbes_file content tbl = ReadFeatureProbes (map_option scanTokens content) tbl"

section \<open>The reconciliation engine\<close>

text \<open>
  Of the engine, pkg/bpf/map.go holds the constant \<open>maxSyncErrors\<close> and no function
  that reads it. The definitions of this section are written from the specification,
  sections 3, 4.3 and 4.4.
\<close>

text \<open>
  Modelled from the spec: the states of a map under reconciliation (section 4.4), whose
  code is not in the sources: Idle, Scheduled, Running and Failed.
\<close>

datatype Phase = Idle | Scheduled | Running | Failed

text \<open>
  Modelled from the spec: the per-map state of section 3, whose code is not in the
  sources: the resolved kind, the running counter of consecutive errors and the state of
  the map, of which Failed is the "failed" flag. The entry cache is left out: of a pass,
  only the number of entries whose kernel operation failed bears on the counter.
\<close>

record MapState =
  kind :: MapType
  errorCounter :: nat
  phase :: Phase

text \<open>
  Modelled from the spec: \<open>Register\<close> (section 4.3), whose code is not in the sources:
  the kind is resolved against the table, the counter is zero and the map is not failed.
\<close>

definition Register :: "MapType \<Rightarrow> SupportTable \<Rightarrow> MapState" where
  "Register requestedKind tbl =
     \<lparr>kind = GetMapType requestedKind tbl, errorCounter = 0, phase = Idle\<rparr>"

text \<open>
  Modelled from the spec: the effect of \<open>SetDesired\<close> on the state of the map (section
  4.4), whose code is not in the sources: it moves Idle to Scheduled; a map already
  Scheduled or Running absorbs the request, and a failed map is not acted upon.
\<close>

definition SetDesired :: "MapState \<Rightarrow> MapState" where
  "SetDesired st = (if phase st = Idle then st\<lparr>phase := Scheduled\<rparr> else st)"

text \<open>
  Modelled from the spec: one firing of the timer (section 4.4), whose code is not in the
  sources. Only a Scheduled map runs a pass. The pass goes through Running; a pass in
  which no entry failed resets the counter to zero, and any other pass adds one to the
  counter for each failed entry. After the pass the map is Idle when the counter is zero,
  Scheduled again when it is at or below the ceiling \<open>maxSyncErrors\<close>, and Failed when it
  exceeds the ceiling.
\<close>

definition reconcilePass :: "nat \<Rightarrow> MapState \<Rightarrow> MapState" where
  "reconcilePass failedEntries st =
     (if phase st \<noteq> Scheduled then st
      else let counted = (if failedEntries = 0 then 0 else errorCounter st + failedEntries)
           in st\<lparr>errorCounter := counted,
                 phase := (if counted = 0 then Idle
                           else if counted \<le> maxSyncErrors then Scheduled
                           else Failed)\<rparr>)"

text \<open>
  Modelled from the spec: the explicit external reset of a failed map (section 4.4),
  whose code is not in the sources: it clears the counter.
\<close>

definition resetMap :: "MapState \<Rightarrow> MapState" where
  "resetMap st = st\<lparr>errorCounter := 0, phase := Idle\<rparr>"

text \<open>
  Modelled from the spec: what can happen to a registered map, and a run of such events.
\<close>

datatype Event = Desired | TimerFired nat | ExternalReset

fun step :: "MapState \<Rightarrow> Event \<Rightarrow> MapState" where
  "step st Desired = SetDesired st"
| "step st (TimerFired failedEntries) = reconcilePass failedEntries st"
| "step st ExternalReset = resetMap st"

definition run :: "MapState \<Rightarrow> Event list \<Rightarrow> MapState" where
  "run st evs = foldl step st evs"

section \<open>Properties of the capability model\<close>

lemmas MapType_defs =
  MapTypeUnspec_def MapTypeHash_def MapTypeArray_def MapTypeProgArray_def
  MapTypePerfEventArray_def MapTypePerCPUHash_def MapTypePerCPUArray_def
  MapTypeStackTrace_def MapTypeCgroupArray_def MapTypeLRUHash_def
  MapTypeLRUPerCPUHash_def MapTypeLPMTrie_def MapTypeArrayOfMaps_def
  MapTypeHashOfMaps_def MapTypeDevMap_def MapTypeSockMap_def MapTypeCPUMap_def
  MapTypeXSKMap_def MapTypeSockHash_def MapTypeMaximum_def


lemma index_bool_iff: "index_bool tbl t \<longleftrightarrow> tbl t = Some True"
  by (cases "tbl t") (simp_all add: index_bool_def)

text \<open>
  Claim C1. \<open>GetMapType\<close> is a total function of the requested type and the table. It
  returns \<open>MapTypeHash\<close> when the type is \<open>MapTypeLPMTrie\<close> or \<open>MapTypeLRUHash\<close> and
  the table does not hold \<open>true\<close> for it, which covers both an entry \<open>false\<close> and no
  entry at all; in every other case it returns the type it was given.
\<close>

theorem GetMapType_resolve:
  "GetMapType k t =
     (if (k = MapTypeLPMTrie \<or> k = MapTypeLRUHash) \<and> t k \<noteq> Some True
      then MapTypeHash else k)"
  by (simp add: GetMapType_def index_bool_iff)

theorem GetMapType_resolve_witness:
  "GetMapType MapTypeLPMTrie Map.empty = MapTypeHash
   \<and> GetMapType MapTypeLRUHash [MapTypeLRUHash \<mapsto> False] = MapTypeHash
   \<and> GetMapType MapTypeLRUHash [MapTypeLRUHash \<mapsto> True] = MapTypeLRUHash
   \<and> GetMapType MapTypeArray Map.empty = MapTypeArray"
  using GetMapType_resolve [of MapTypeLPMTrie Map.empty]
    GetMapType_resolve [of MapTypeLRUHash "[MapTypeLRUHash \<mapsto> False]"]
    GetMapType_resolve [of MapTypeLRUHash "[MapTypeLRUHash \<mapsto> True]"]
    GetMapType_resolve [of MapTypeArray Map.empty]
  by (simp add: MapType_defs)

text \<open>
  Claim C5. \<open>allowsPreallocation\<close> is false for \<open>MapTypeLPMTrie\<close> and true for every
  other value of the type, listed in the enumeration or not.
\<close>

theorem allowsPreallocation_iff:
  "allowsPreallocation t \<longleftrightarrow> t \<noteq> MapTypeLPMTrie"
  by (simp add: allowsPreallocation_def)

theorem allowsPreallocation_iff_witness:
  "\<not> allowsPreallocation MapTypeLPMTrie \<and> allowsPreallocation MapTypeHash
   \<and> allowsPreallocation MapTypeUnspec \<and> allowsPreallocation 42"
  using allowsPreallocation_iff [of MapTypeLPMTrie] allowsPreallocation_iff [of MapTypeHash]
    allowsPreallocation_iff [of MapTypeUnspec] allowsPreallocation_iff [of 42]
  by (simp add: MapType_defs)

text \<open>
  Claim C6. \<open>requiresPreallocation\<close> is false for the four types \<open>MapTypeHash\<close>,
  \<open>MapTypePerCPUHash\<close>, \<open>MapTypeLPMTrie\<close> and \<open>MapTypeHashOfMaps\<close>, and true for every
  other value of the type.
\<close>

theorem requiresPreallocation_iff:
  "requiresPreallocation t \<longleftrightarrow>
     t \<notin> {MapTypeHash, MapTypePerCPUHash, MapTypeLPMTrie, MapTypeHashOfMaps}"
  by (simp add: requiresPreallocation_def)

theorem requiresPreallocation_iff_witness:
  "\<not> requiresPreallocation MapTypeHash \<and> \<not> requiresPreallocation MapTypePerCPUHash
   \<and> \<not> requiresPreallocation MapTypeLPMTrie \<and> \<not> requiresPreallocation MapTypeHashOfMaps
   \<and> requiresPreallocation MapTypeArray \<and> requiresPreallocation MapTypeLRUHash
   \<and> requiresPreallocation 42"
  using requiresPreallocation_iff [of MapTypeHash] requiresPreallocation_iff [of MapTypePerCPUHash]
    requiresPreallocation_iff [of MapTypeLPMTrie] requiresPreallocation_iff [of MapTypeHashOfMaps]
    requiresPreallocation_iff [of MapTypeArray] requiresPreallocation_iff [of MapTypeLRUHash]
    requiresPreallocation_iff [of 42]
  by (simp add: MapType_defs)

text \<open>
  Claim C7. \<open>GetMapType\<close> is idempotent: resolving an already resolved type against the
  same table changes nothing.
\<close>

theorem GetMapType_idem:
  "GetMapType (GetMapType k t) t = GetMapType k t"
  by (simp add: GetMapType_def MapType_defs)

theorem GetMapType_idem_witness:
  "GetMapType (GetMapType MapTypeLPMTrie Map.empty) Map.empty = MapTypeHash
   \<and> GetMapType (GetMapType MapTypeLRUHash [MapTypeLRUHash \<mapsto> True]) [MapTypeLRUHash \<mapsto> True]
       = MapTypeLRUHash"
  using GetMapType_idem [of MapTypeLPMTrie Map.empty]
    GetMapType_idem [of MapTypeLRUHash "[MapTypeLRUHash \<mapsto> True]"]
  by (simp add: GetMapType_def index_bool_def MapType_defs)

lemma inEnumeration_cases:
  "inEnumeration t \<longleftrightarrow>
     t \<in> {MapTypeUnspec, MapTypeHash, MapTypeArray, MapTypeProgArray, MapTypePerfEventArray,
          MapTypePerCPUHash, MapTypePerCPUArray, MapTypeStackTrace, MapTypeCgroupArray,
          MapTypeLRUHash, MapTypeLRUPerCPUHash, MapTypeLPMTrie, MapTypeArrayOfMaps,
          MapTypeHashOfMaps, MapTypeDevMap, MapTypeSockMap, MapTypeCPUMap, MapTypeXSKMap,
          MapTypeSockHash}"
  unfolding inEnumeration_def MapType_defs by (simp only: insert_iff empty_iff) arith

text \<open>
  Claim C4. \<open>String\<close> has no case for \<open>MapTypeUnspec\<close>: the first value of the
  enumeration gets the string of the default branch, the one of a value outside the
  enumeration.
\<close>

theorem MapType_String_counterexample:
  "inEnumeration MapTypeUnspec \<and> MapType_String MapTypeUnspec = ''Unknown''
   \<and> MapType_String MapTypeUnspec = MapType_String MapTypeMaximum"
  by (simp add: inEnumeration_def MapType_String_def MapType_defs)

text \<open>
  The switch has no case for \<open>MapTypeXSKMap\<close> either, alone among the map types from
  \<open>MapTypeHash\<close> to \<open>MapTypeSockHash\<close>.
\<close>

lemma MapType_String_XSKMap:
  "inEnumeration MapTypeXSKMap \<and> MapType_String MapTypeXSKMap = ''Unknown''"
  by (simp add: inEnumeration_def MapType_String_def MapType_defs)

text \<open>
  Claim C4, amended. \<open>String\<close> returns a string that is not empty for every value of the
  type. It returns \<open>Unknown\<close> for \<open>MapTypeUnspec\<close> and for every value outside the
  enumeration. For every value of the enumeration other than \<open>MapTypeUnspec\<close> and
  \<open>MapTypeXSKMap\<close> it returns a string other than \<open>Unknown\<close>, the label of the
  type in the list below.
\<close>

theorem MapType_String_labels:
  "MapType_String t \<noteq> []
   \<and> (t = MapTypeUnspec \<or> \<not> inEnumeration t \<longrightarrow> MapType_String t = ''Unknown'')
   \<and> (inEnumeration t \<and> t \<noteq> MapTypeUnspec \<and> t \<noteq> MapTypeXSKMap \<longrightarrow>
        MapType_String t \<noteq> ''Unknown'')
   \<and> map MapType_String
        [MapTypeHash, MapTypeArray, MapTypeProgArray, MapTypePerfEventArray, MapTypePerCPUHash,
         MapTypePerCPUArray, MapTypeStackTrace, MapTypeCgroupArray, MapTypeLRUHash,
         MapTypeLRUPerCPUHash, MapTypeLPMTrie, MapTypeArrayOfMaps, MapTypeHashOfMaps,
         MapTypeDevMap, MapTypeSockMap, MapTypeCPUMap, MapTypeSockHash]
       = [''Hash'', ''Array'', ''Program array'', ''Event array'', ''Per-CPU hash'',
          ''Per-CPU array'', ''Stack trace'', ''Cgroup array'', ''LRU hash'',
          ''LRU per-CPU hash'', ''Longest prefix match trie'', ''Array of maps'',
          ''Hash of maps'', ''Device Map'', ''Socket Map'', ''CPU Redirect Map'',
          ''Socket Hash'']"
proof -
  have a: "MapType_String t \<noteq> []"
    by (simp add: MapType_String_def)
  have b: "t = MapTypeUnspec \<or> \<not> inEnumeration t \<longrightarrow> MapType_String t = ''Unknown''"
    by (auto simp add: inEnumeration_cases) (simp_all add: MapType_String_def MapType_defs)
  have c: "inEnumeration t \<and> t \<noteq> MapTypeUnspec \<and> t \<noteq> MapTypeXSKMap \<longrightarrow>
        MapType_String t \<noteq> ''Unknown''"
    by (auto simp add: inEnumeration_cases) (simp_all add: MapType_String_def MapType_defs)
  have d: "map MapType_String
        [MapTypeHash, MapTypeArray, MapTypeProgArray, MapTypePerfEventArray, MapTypePerCPUHash,
         MapTypePerCPUArray, MapTypeStackTrace, MapTypeCgroupArray, MapTypeLRUHash,
         MapTypeLRUPerCPUHash, MapTypeLPMTrie, MapTypeArrayOfMaps, MapTypeHashOfMaps,
         MapTypeDevMap, MapTypeSockMap, MapTypeCPUMap, MapTypeSockHash]
       = [''Hash'', ''Array'', ''Program array'', ''Event array'', ''Per-CPU hash'',
          ''Per-CPU array'', ''Stack trace'', ''Cgroup array'', ''LRU hash'',
          ''LRU per-CPU hash'', ''Longest prefix match trie'', ''Array of maps'',
          ''Hash of maps'', ''Device Map'', ''Socket Map'', ''CPU Redirect Map'',
          ''Socket Hash'']"
    by (simp add: MapType_String_def MapType_defs)
  from a b c d show ?thesis by blast
qed

theorem MapType_String_labels_witness:
  "MapType_String MapTypeUnspec = ''Unknown''
   \<and> \<not> inEnumeration 42 \<and> MapType_String 42 = ''Unknown''
   \<and> \<not> inEnumeration (- 1) \<and> MapType_String (- 1) = ''Unknown''
   \<and> inEnumeration MapTypeLPMTrie \<and> MapType_String MapTypeLPMTrie \<noteq> ''Unknown''"
  using MapType_String_labels [of MapTypeUnspec] MapType_String_labels [of 42]
    MapType_String_labels [of "- 1"] MapType_String_labels [of MapTypeLPMTrie]
  by (simp add: inEnumeration_def MapType_defs)

section \<open>Properties of the feature prober\<close>

lemma bytes_Compare_eq_0: "bytes_Compare xs ys = 0 \<longleftrightarrow> xs = ys"
  by (induction xs ys rule: bytes_Compare.induct) auto

lemma probed_iff:
  "mapTypeToFeatureString k \<noteq> [] \<longleftrightarrow> k = MapTypeLPMTrie \<or> k = MapTypeLRUHash"
  by (simp add: mapTypeToFeatureString_def)

lemma probed_in_loop:
  "mapTypeToFeatureString k \<noteq> [] \<Longrightarrow> k \<in> set mapTypeLoop"
  by (auto simp add: probed_iff mapTypeLoop_def MapType_defs)

lemma fold_probeLine:
  "fold (probeLine line) xs tbl k =
     (if k \<in> set xs \<and> mapTypeToFeatureString k \<noteq> [] \<and> line = mapTypeToFeatureString k
      then Some True else tbl k)"
  by (induction xs arbitrary: tbl) (auto simp add: probeLine_def bytes_Compare_eq_0)

lemma scanLine_apply:
  "scanLine line tbl k =
     (if mapTypeToFeatureString k \<noteq> [] \<and> line = mapTypeToFeatureString k
      then Some True else tbl k)"
  using probed_in_loop [of k] by (simp add: scanLine_def fold_probeLine)

lemma fold_scanLine:
  "fold scanLine ls tbl k =
     (if mapTypeToFeatureString k \<noteq> [] \<and> mapTypeToFeatureString k \<in> set ls
      then Some True else tbl k)"
  by (induction ls arbitrary: tbl) (auto simp add: scanLine_apply)

lemma fold_recordUnprobed:
  "fold recordUnprobed xs tbl k =
     (if k \<in> set xs \<and> mapTypeToFeatureString k \<noteq> [] \<and> tbl k = None
      then Some False else tbl k)"
  by (induction xs arbitrary: tbl) (auto simp add: recordUnprobed_def)

lemma finish_apply:
  "fold recordUnprobed mapTypeLoop tbl k =
     (if mapTypeToFeatureString k \<noteq> [] \<and> tbl k = None then Some False else tbl k)"
  using probed_in_loop [of k] by (simp add: fold_recordUnprobed)

lemma ReadFeatureProbes_apply:
  "ReadFeatureProbes (Some ls) tbl =
     Inr (\<lambda>k. if mapTypeToFeatureString k = [] then tbl k
               else if mapTypeToFeatureString k \<in> set ls then Some True
               else if tbl k = None then Some False
               else tbl k)"
  by (auto simp add: ReadFeatureProbes_def finish_apply fold_scanLine fun_eq_iff)


lemma featureString_empty_iff:
  "mapTypeToFeatureString k = [] \<longleftrightarrow> k \<noteq> MapTypeLPMTrie \<and> k \<noteq> MapTypeLRUHash"
  by (simp add: mapTypeToFeatureString_def)

lemma scanTokens_Nil: "scanTokens [] = []"
  by (simp add: scanTokens.simps)

lemma firstLine_append:
  "newline \<notin> set l \<Longrightarrow> firstLine (l @ newline # rest) = l"
  by (auto simp add: firstLine_def takeWhile_append)

lemma firstLine_all:
  "newline \<notin> set l \<Longrightarrow> firstLine l = l"
  by (auto simp add: firstLine_def)

lemma scanTokens_line:
  "newline \<notin> set l \<Longrightarrow> length l < MaxScanTokenSize \<Longrightarrow>
   scanTokens (l @ newline # rest) = dropCR l # scanTokens rest"
  by (subst scanTokens.simps) (simp add: firstLine_append afterLine_def)

lemma scanTokens_last:
  "newline \<notin> set l \<Longrightarrow> l \<noteq> [] \<Longrightarrow> length l < MaxScanTokenSize \<Longrightarrow>
   scanTokens l = [dropCR l]"
  by (subst scanTokens.simps) (simp add: firstLine_all afterLine_def scanTokens_Nil)

lemma scanTokens_long:
  "newline \<notin> set l \<Longrightarrow> MaxScanTokenSize \<le> length l \<Longrightarrow>
   scanTokens (l @ newline # rest) = []"
  by (subst scanTokens.simps) (simp add: firstLine_append)

lemma scan_example_lpm:
  "scanTokens ''#define HAVE_LPM_MAP_TYPE'' = [''#define HAVE_LPM_MAP_TYPE'']"
  by (subst scanTokens_last) (simp_all add: newline_def MaxScanTokenSize_def dropCR_def)

lemma scan_example_long:
  "scanTokens (replicate 70000 (CHR ''x'') @ newline # ''#define HAVE_LPM_MAP_TYPE'') = []"
  by (rule scanTokens_long) (simp_all add: newline_def MaxScanTokenSize_def)

lemma ReadFeatureProbes_probed:
  "ReadFeatureProbes (Some ls) tbl =
     Inr (\<lambda>k. if k = MapTypeLPMTrie \<or> k = MapTypeLRUHash
               then (if mapTypeToFeatureString k \<in> set ls then Some True
                     else if tbl k = None then Some False else tbl k)
               else tbl k)"
  by (simp add: ReadFeatureProbes_apply featureString_empty_iff fun_eq_iff)

lemma scan_example_crlf:
  "scanTokens ((''#define HAVE_LRU_MAP_TYPE'' @ [CHR 0x0D]) @ newline #
               (''#define HAVE_LPM_MAP_TYPE'' @ newline # [])) =
     [''#define HAVE_LRU_MAP_TYPE'', ''#define HAVE_LPM_MAP_TYPE'']"
proof -
  have one: "scanTokens (''#define HAVE_LPM_MAP_TYPE'' @ newline # []) =
      dropCR ''#define HAVE_LPM_MAP_TYPE'' # scanTokens []"
    by (rule scanTokens_line) (simp_all add: newline_def MaxScanTokenSize_def)
  have two: "scanTokens ((''#define HAVE_LRU_MAP_TYPE'' @ [CHR 0x0D]) @ newline #
               (''#define HAVE_LPM_MAP_TYPE'' @ newline # [])) =
      dropCR (''#define HAVE_LRU_MAP_TYPE'' @ [CHR 0x0D]) #
        scanTokens (''#define HAVE_LPM_MAP_TYPE'' @ newline # [])"
    by (rule scanTokens_line) (simp_all add: newline_def MaxScanTokenSize_def)
  show ?thesis
    unfolding two one scanTokens_Nil by (simp add: dropCR_def)
qed

text \<open>
  Claim C2. The claim fails in two places. A second run starts from the table the first
  run left: after a run on a file whose only line is the feature string of
  \<open>MapTypeLPMTrie\<close>, a run on the empty file leaves \<open>MapTypeLPMTrie\<close> at \<open>true\<close>,
  with no explicit \<open>false\<close>. And on the table as the package creates it, a file whose
  first line has 70000 bytes and whose second line is the feature string of
  \<open>MapTypeLPMTrie\<close> gives \<open>false\<close> for \<open>MapTypeLPMTrie\<close>: the scan ends at the
  first line.
\<close>

theorem ReadFeatureProbes_counterexample:
  "ReadFeatureProbes_file (Some ''#define HAVE_LPM_MAP_TYPE'') supportedMapTypes_init =
     Inr [MapTypeLPMTrie \<mapsto> True, MapTypeLRUHash \<mapsto> False]
   \<and> ReadFeatureProbes_file (Some []) [MapTypeLPMTrie \<mapsto> True, MapTypeLRUHash \<mapsto> False] =
     Inr [MapTypeLPMTrie \<mapsto> True, MapTypeLRUHash \<mapsto> False]
   \<and> ReadFeatureProbes_file
       (Some (replicate 70000 (CHR ''x'') @ newline # ''#define HAVE_LPM_MAP_TYPE''))
       supportedMapTypes_init =
     Inr [MapTypeLPMTrie \<mapsto> False, MapTypeLRUHash \<mapsto> False]"
proof -
  have first: "ReadFeatureProbes_file (Some ''#define HAVE_LPM_MAP_TYPE'') supportedMapTypes_init =
     Inr [MapTypeLPMTrie \<mapsto> True, MapTypeLRUHash \<mapsto> False]"
    unfolding ReadFeatureProbes_file_def option.map scan_example_lpm ReadFeatureProbes_probed
    by (simp add: fun_eq_iff supportedMapTypes_init_def MapType_defs mapTypeToFeatureString_def)
  have second: "ReadFeatureProbes_file (Some []) [MapTypeLPMTrie \<mapsto> True, MapTypeLRUHash \<mapsto> False] =
     Inr [MapTypeLPMTrie \<mapsto> True, MapTypeLRUHash \<mapsto> False]"
    unfolding ReadFeatureProbes_file_def option.map scanTokens_Nil ReadFeatureProbes_probed
    by (simp add: fun_eq_iff MapType_defs)
  have long: "ReadFeatureProbes_file
       (Some (replicate 70000 (CHR ''x'') @ newline # ''#define HAVE_LPM_MAP_TYPE''))
       supportedMapTypes_init =
     Inr [MapTypeLPMTrie \<mapsto> False, MapTypeLRUHash \<mapsto> False]"
    unfolding ReadFeatureProbes_file_def option.map scan_example_long ReadFeatureProbes_probed
    by (simp add: fun_eq_iff supportedMapTypes_init_def MapType_defs)
  from first second long show ?thesis by blast
qed

text \<open>
  Claim C2, amended. On any file that can be opened and from any table,
  \<open>ReadFeatureProbes\<close> returns the table in which, for \<open>MapTypeLPMTrie\<close> and for
  \<open>MapTypeLRUHash\<close>, the entry is \<open>true\<close> when the feature string of the type is one
  of the tokens the scanner yields, and otherwise is the entry the type had before the
  run, or an explicit \<open>false\<close> when it had none; the entry of every other map type is
  left as it was, so that there is none when the run starts from the table as the package
  creates it. The same holds of the run on any list of tokens. The tokens are the lines of
  the file without their end-of-line markers, up to the first line of
  \<open>MaxScanTokenSize\<close> bytes or more, from which on there is none. From the table as the
  package creates it, the empty file gives \<open>false\<close> for both types, and the file that is
  the feature string of \<open>MapTypeLPMTrie\<close> alone gives \<open>true\<close> for \<open>MapTypeLPMTrie\<close>
  and \<open>false\<close> for \<open>MapTypeLRUHash\<close>.
\<close>

theorem ReadFeatureProbes_table:
  "ReadFeatureProbes_file (Some content) tbl =
     Inr (\<lambda>k. if k = MapTypeLPMTrie \<or> k = MapTypeLRUHash
               then (if mapTypeToFeatureString k \<in> set (scanTokens content) then Some True
                     else if tbl k = None then Some False else tbl k)
               else tbl k)
   \<and> ReadFeatureProbes (Some ls) tbl =
     Inr (\<lambda>k. if k = MapTypeLPMTrie \<or> k = MapTypeLRUHash
               then (if mapTypeToFeatureString k \<in> set ls then Some True
                     else if tbl k = None then Some False else tbl k)
               else tbl k)
   \<and> scanTokens [] = []
   \<and> (newline \<notin> set l \<and> l \<noteq> [] \<and> length l < MaxScanTokenSize \<longrightarrow>
        scanTokens l = [dropCR l])
   \<and> (newline \<notin> set l \<and> length l < MaxScanTokenSize \<longrightarrow>
        scanTokens (l @ newline # rest) = dropCR l # scanTokens rest)
   \<and> (newline \<notin> set l \<and> MaxScanTokenSize \<le> length l \<longrightarrow>
        scanTokens (l @ newline # rest) = [])
   \<and> MaxScanTokenSize = 65536
   \<and> ReadFeatureProbes_file (Some []) supportedMapTypes_init =
       Inr [MapTypeLPMTrie \<mapsto> False, MapTypeLRUHash \<mapsto> False]
   \<and> ReadFeatureProbes_file (Some ''#define HAVE_LPM_MAP_TYPE'') supportedMapTypes_init =
       Inr [MapTypeLPMTrie \<mapsto> True, MapTypeLRUHash \<mapsto> False]"
proof -
  have bytes: "ReadFeatureProbes_file (Some content) tbl =
     Inr (\<lambda>k. if k = MapTypeLPMTrie \<or> k = MapTypeLRUHash
               then (if mapTypeToFeatureString k \<in> set (scanTokens content) then Some True
                     else if tbl k = None then Some False else tbl k)
               else tbl k)"
    unfolding ReadFeatureProbes_file_def option.map by (rule ReadFeatureProbes_probed)
  have last: "newline \<notin> set l \<and> l \<noteq> [] \<and> length l < MaxScanTokenSize \<longrightarrow>
        scanTokens l = [dropCR l]"
    by (simp add: scanTokens_last)
  have line: "newline \<notin> set l \<and> length l < MaxScanTokenSize \<longrightarrow>
        scanTokens (l @ newline # rest) = dropCR l # scanTokens rest"
    by (simp add: scanTokens_line)
  have long: "newline \<notin> set l \<and> MaxScanTokenSize \<le> length l \<longrightarrow>
        scanTokens (l @ newline # rest) = []"
    by (simp add: scanTokens_long)
  have size: "MaxScanTokenSize = 65536"
    by (simp add: MaxScanTokenSize_def)
  have none: "ReadFeatureProbes_file (Some []) supportedMapTypes_init =
       Inr [MapTypeLPMTrie \<mapsto> False, MapTypeLRUHash \<mapsto> False]"
    unfolding ReadFeatureProbes_file_def option.map scanTokens_Nil ReadFeatureProbes_probed
    by (simp add: fun_eq_iff supportedMapTypes_init_def MapType_defs)
  have lpm: "ReadFeatureProbes_file (Some ''#define HAVE_LPM_MAP_TYPE'') supportedMapTypes_init =
       Inr [MapTypeLPMTrie \<mapsto> True, MapTypeLRUHash \<mapsto> False]"
    unfolding ReadFeatureProbes_file_def option.map scan_example_lpm ReadFeatureProbes_probed
    by (simp add: fun_eq_iff supportedMapTypes_init_def MapType_defs mapTypeToFeatureString_def)
  from bytes ReadFeatureProbes_probed [of ls tbl] scanTokens_Nil last line long size none lpm
  show ?thesis by blast
qed

theorem ReadFeatureProbes_table_witness:
  "ReadFeatureProbes_file
     (Some ((''#define HAVE_LRU_MAP_TYPE'' @ [CHR 0x0D]) @ newline #
            (''#define HAVE_LPM_MAP_TYPE'' @ newline # [])))
     supportedMapTypes_init =
     Inr [MapTypeLPMTrie \<mapsto> True, MapTypeLRUHash \<mapsto> True]
   \<and> ReadFeatureProbes (Some [''/* probes */'']) [MapTypeLPMTrie \<mapsto> True] =
     Inr [MapTypeLPMTrie \<mapsto> True, MapTypeLRUHash \<mapsto> False]
   \<and> newline \<notin> set ''abc'' \<and> ''abc'' \<noteq> [] \<and> length ''abc'' < MaxScanTokenSize
   \<and> scanTokens ''abc'' = [''abc'']
   \<and> scanTokens (''abc'' @ newline # []) = [''abc'']
   \<and> newline \<notin> set (replicate 70000 (CHR ''x''))
   \<and> MaxScanTokenSize \<le> length (replicate 70000 (CHR ''x''))
   \<and> scanTokens (replicate 70000 (CHR ''x'') @ newline # ''abc'') = []"
proof -
  note thm1 = ReadFeatureProbes_table
    [where content = "(''#define HAVE_LRU_MAP_TYPE'' @ [CHR 0x0D]) @ newline #
                      (''#define HAVE_LPM_MAP_TYPE'' @ newline # [])"
       and tbl = supportedMapTypes_init and ls = "[]" and l = "''abc''" and rest = "[]"]
  note thm2 = ReadFeatureProbes_table
    [where content = "[]" and tbl = "[MapTypeLPMTrie \<mapsto> True]" and ls = "[''/* probes */'']"
       and l = "replicate 70000 (CHR ''x'')" and rest = "''abc''"]
  have short: "newline \<notin> set ''abc'' \<and> ''abc'' \<noteq> [] \<and> length ''abc'' < MaxScanTokenSize"
    by (simp add: newline_def MaxScanTokenSize_def)
  have big: "newline \<notin> set (replicate 70000 (CHR ''x''))
      \<and> MaxScanTokenSize \<le> length (replicate 70000 (CHR ''x''))"
    by (simp add: newline_def MaxScanTokenSize_def)
  from thm1 have run1: "ReadFeatureProbes_file
     (Some ((''#define HAVE_LRU_MAP_TYPE'' @ [CHR 0x0D]) @ newline #
            (''#define HAVE_LPM_MAP_TYPE'' @ newline # [])))
     supportedMapTypes_init =
     Inr [MapTypeLPMTrie \<mapsto> True, MapTypeLRUHash \<mapsto> True]"
    unfolding scan_example_crlf
    by (simp add: fun_eq_iff supportedMapTypes_init_def MapType_defs mapTypeToFeatureString_def)
  from thm2 have run2: "ReadFeatureProbes (Some [''/* probes */'']) [MapTypeLPMTrie \<mapsto> True] =
     Inr [MapTypeLPMTrie \<mapsto> True, MapTypeLRUHash \<mapsto> False]"
    by (simp add: fun_eq_iff MapType_defs mapTypeToFeatureString_def)
  from thm1 short have tok1: "scanTokens ''abc'' = [''abc'']"
    by (simp add: dropCR_def)
  from thm1 short have tok2: "scanTokens (''abc'' @ newline # []) = [''abc'']"
    by (simp add: dropCR_def)
  from thm2 big have tok3: "scanTokens (replicate 70000 (CHR ''x'') @ newline # ''abc'') = []"
    by blast
  from run1 run2 short tok1 tok2 big tok3 show ?thesis by blast
qed

text \<open>
  Claim C8. \<open>ReadFeatureProbes\<close> is idempotent: from any table and on any lines, it
  returns a table, and a second run on the same lines returns that table unchanged.
\<close>

theorem ReadFeatureProbes_idem:
  "\<exists>tbl1. ReadFeatureProbes (Some ls) tbl = Inr tbl1
        \<and> ReadFeatureProbes (Some ls) tbl1 = Inr tbl1"
proof -
  let ?tbl1 = "\<lambda>k. if mapTypeToFeatureString k = [] then tbl k
                   else if mapTypeToFeatureString k \<in> set ls then Some True
                   else if tbl k = None then Some False
                   else tbl k"
  have first: "ReadFeatureProbes (Some ls) tbl = Inr ?tbl1"
    by (rule ReadFeatureProbes_apply)
  have second: "ReadFeatureProbes (Some ls) ?tbl1 = Inr ?tbl1"
    by (simp add: ReadFeatureProbes_apply fun_eq_iff)
  from first second show ?thesis by blast
qed

theorem ReadFeatureProbes_idem_witness:
  "\<exists>tbl1. ReadFeatureProbes (Some [''#define HAVE_LPM_MAP_TYPE'']) [MapTypeLRUHash \<mapsto> True] = Inr tbl1
        \<and> ReadFeatureProbes (Some [''#define HAVE_LPM_MAP_TYPE'']) tbl1 = Inr tbl1"
  by (rule ReadFeatureProbes_idem)



text \<open>
  Claim C10. An entry \<open>true\<close> survives every further run of \<open>ReadFeatureProbes\<close>,
  whatever the lines. An entry \<open>false\<close> that was not in the table before the run belongs
  to a type with a feature string that had no entry when the scan ended, and every such
  type gets one.
\<close>

theorem ReadFeatureProbes_monotone:
  "ReadFeatureProbes (Some ls) tbl = Inr tbl' \<Longrightarrow>
     (tbl k = Some True \<longrightarrow> tbl' k = Some True)
     \<and> (tbl' k = Some False \<and> tbl k \<noteq> Some False \<longrightarrow>
          mapTypeToFeatureString k \<noteq> [] \<and> fold scanLine ls tbl k = None)
     \<and> (mapTypeToFeatureString k \<noteq> [] \<and> fold scanLine ls tbl k = None \<longrightarrow>
          tbl' k = Some False)"
  by (auto simp add: ReadFeatureProbes_apply fold_scanLine split: if_splits)

theorem ReadFeatureProbes_monotone_witness:
  "ReadFeatureProbes (Some []) [MapTypeLPMTrie \<mapsto> True] =
     Inr [MapTypeLPMTrie \<mapsto> True, MapTypeLRUHash \<mapsto> False]
   \<and> [MapTypeLPMTrie \<mapsto> True, MapTypeLRUHash \<mapsto> False] MapTypeLPMTrie = Some True
   \<and> fold scanLine [] [MapTypeLPMTrie \<mapsto> True] MapTypeLRUHash = None"
proof -
  have run: "ReadFeatureProbes (Some []) [MapTypeLPMTrie \<mapsto> True] =
     Inr [MapTypeLPMTrie \<mapsto> True, MapTypeLRUHash \<mapsto> False]"
    by (auto simp add: ReadFeatureProbes_apply fun_eq_iff MapType_defs mapTypeToFeatureString_def)
  from ReadFeatureProbes_monotone [OF run, of MapTypeLPMTrie]
    ReadFeatureProbes_monotone [OF run, of MapTypeLRUHash] run
  show ?thesis by (simp add: MapType_defs)
qed

section \<open>Properties of the reconciliation engine\<close>

lemma step_ceiling:
  "(phase st = Failed \<longleftrightarrow> maxSyncErrors < errorCounter st) \<Longrightarrow>
   (phase (step st ev) = Failed \<longleftrightarrow> maxSyncErrors < errorCounter (step st ev))"
  by (cases ev) (auto simp add: SetDesired_def reconcilePass_def resetMap_def Let_def maxSyncErrors_def)

lemma run_ceiling:
  "(phase st = Failed \<longleftrightarrow> maxSyncErrors < errorCounter st) \<Longrightarrow>
   (phase (run st evs) = Failed \<longleftrightarrow> maxSyncErrors < errorCounter (run st evs))"
  unfolding run_def
proof (induction evs arbitrary: st)
  case Nil
  then show ?case by simp
next
  case (Cons ev evs)
  from Cons.prems have "phase (step st ev) = Failed \<longleftrightarrow> maxSyncErrors < errorCounter (step st ev)"
    by (rule step_ceiling)
  then show ?case using Cons.IH by simp
qed

lemma SetDesired_Register:
  "SetDesired (Register k t) = \<lparr>kind = GetMapType k t, errorCounter = 0, phase = Scheduled\<rparr>"
  by (simp add: SetDesired_def Register_def)

lemma reconcilePass_Scheduled:
  "reconcilePass n \<lparr>kind = K, errorCounter = c, phase = Scheduled\<rparr> =
     (if n = 0 then \<lparr>kind = K, errorCounter = 0, phase = Idle\<rparr>
      else if c + n \<le> maxSyncErrors then \<lparr>kind = K, errorCounter = c + n, phase = Scheduled\<rparr>
      else \<lparr>kind = K, errorCounter = c + n, phase = Failed\<rparr>)"
  by (simp add: reconcilePass_def Let_def)

lemma fold_reconcilePass_Failed:
  "phase st = Failed \<Longrightarrow> fold reconcilePass ns st = st"
  by (induction ns) (simp_all add: reconcilePass_def)

lemma failing_passes_total:
  "\<forall>n\<in>set ns. 0 < n \<Longrightarrow> c \<le> maxSyncErrors \<Longrightarrow>
   (c + sum_list ns \<le> maxSyncErrors \<longrightarrow>
      fold reconcilePass ns \<lparr>kind = K, errorCounter = c, phase = Scheduled\<rparr> =
        \<lparr>kind = K, errorCounter = c + sum_list ns, phase = Scheduled\<rparr>)
   \<and> (maxSyncErrors < c + sum_list ns \<longrightarrow>
      phase (fold reconcilePass ns \<lparr>kind = K, errorCounter = c, phase = Scheduled\<rparr>) = Failed)"
proof (induction ns arbitrary: c)
  case Nil
  then show ?case by simp
next
  case (Cons n ns)
  from Cons.prems have n: "0 < n" and rest: "\<forall>m\<in>set ns. 0 < m" by simp_all
  show ?case
  proof (cases "c + n \<le> maxSyncErrors")
    case True
    with n have step: "reconcilePass n \<lparr>kind = K, errorCounter = c, phase = Scheduled\<rparr> =
        \<lparr>kind = K, errorCounter = c + n, phase = Scheduled\<rparr>"
      by (simp add: reconcilePass_Scheduled)
    from Cons.IH [OF rest True] show ?thesis
      by (simp add: step add.assoc)
  next
    case False
    with n have step: "reconcilePass n \<lparr>kind = K, errorCounter = c, phase = Scheduled\<rparr> =
        \<lparr>kind = K, errorCounter = c + n, phase = Failed\<rparr>"
      by (simp add: reconcilePass_Scheduled)
    from False show ?thesis
      by (simp add: step fold_reconcilePass_Failed)
  qed
qed

lemma two_failure_passes:
  "(reconcilePass 2 ^^ m) \<lparr>kind = K, errorCounter = 0, phase = Scheduled\<rparr> =
     (if m \<le> 256 then \<lparr>kind = K, errorCounter = 2 * m, phase = Scheduled\<rparr>
      else \<lparr>kind = K, errorCounter = 514, phase = Failed\<rparr>)"
proof (induction m)
  case 0
  then show ?case by simp
next
  case (Suc m)
  have "(reconcilePass 2 ^^ Suc m) \<lparr>kind = K, errorCounter = 0, phase = Scheduled\<rparr> =
      reconcilePass 2 ((reconcilePass 2 ^^ m) \<lparr>kind = K, errorCounter = 0, phase = Scheduled\<rparr>)"
    by simp
  also have "\<dots> = (if Suc m \<le> 256 then \<lparr>kind = K, errorCounter = 2 * Suc m, phase = Scheduled\<rparr>
      else \<lparr>kind = K, errorCounter = 514, phase = Failed\<rparr>)"
    unfolding Suc.IH
    by (cases "m \<le> 256") (auto simp add: reconcilePass_Scheduled reconcilePass_def maxSyncErrors_def)
  finally show ?case .
qed

text \<open>
  Claim C3. The counter grows by the number of failed entries of a pass, so the number of
  failing passes does not decide the transition: with two failed entries in each pass, the
  map is Failed after 257 failing passes, and after 512 failing passes a successful pass
  never runs, the counter stays at 514 and the map stays Failed.
\<close>

theorem reconcile_counterexample:
  "phase (fold reconcilePass (replicate 257 2) (SetDesired (Register MapTypeHash supportedMapTypes_init))) = Failed
   \<and> reconcilePass 0
        (fold reconcilePass (replicate 512 2) (SetDesired (Register MapTypeHash supportedMapTypes_init))) =
       \<lparr>kind = MapTypeHash, errorCounter = 514, phase = Failed\<rparr>"
proof -
  have start: "SetDesired (Register MapTypeHash supportedMapTypes_init) =
      \<lparr>kind = MapTypeHash, errorCounter = 0, phase = Scheduled\<rparr>"
    by (simp add: SetDesired_def Register_def GetMapType_def MapType_defs)
  have a: "phase (fold reconcilePass (replicate 257 2) (SetDesired (Register MapTypeHash supportedMapTypes_init))) = Failed"
    unfolding start fold_replicate two_failure_passes by simp
  have b: "reconcilePass 0
        (fold reconcilePass (replicate 512 2) (SetDesired (Register MapTypeHash supportedMapTypes_init))) =
       \<lparr>kind = MapTypeHash, errorCounter = 514, phase = Failed\<rparr>"
    unfolding start fold_replicate two_failure_passes by (simp add: reconcilePass_def)
  from a b show ?thesis by blast
qed

text \<open>
  Claim C3, amended. A pass of a Scheduled map in which nothing failed resets the counter
  to zero and leaves the map Idle; any other pass adds the number of its failed entries to
  the counter. In every run of events from registration, the map is Failed exactly when
  its counter exceeds the ceiling of 512. From a registered map with a pending change, a
  series of failing passes makes the map Failed exactly when the failed entries of the
  series total 513 or more; while they total 512 or fewer the counter is that total and a
  successful pass gives the counter zero and the map Idle, as registered. With one failed
  entry in each pass, the map is Failed exactly from the 513th pass on. On a Failed map
  neither the timer nor \<open>SetDesired\<close> changes anything; the reset gives a counter of
  zero and an Idle map.
\<close>

theorem reconcile_ceiling:
  "(phase st = Scheduled \<longrightarrow>
      reconcilePass 0 st = st\<lparr>errorCounter := 0, phase := Idle\<rparr>
      \<and> (0 < n \<longrightarrow> errorCounter (reconcilePass n st) = errorCounter st + n))
   \<and> (phase (run (Register k t) evs) = Failed
        \<longleftrightarrow> maxSyncErrors < errorCounter (run (Register k t) evs))
   \<and> maxSyncErrors = 512
   \<and> ((\<forall>f\<in>set fs. 0 < f) \<longrightarrow>
        (phase (fold reconcilePass fs (SetDesired (Register k t))) = Failed
           \<longleftrightarrow> 513 \<le> sum_list fs)
        \<and> (sum_list fs \<le> 512 \<longrightarrow>
             errorCounter (fold reconcilePass fs (SetDesired (Register k t))) = sum_list fs
             \<and> reconcilePass 0 (fold reconcilePass fs (SetDesired (Register k t))) = Register k t))
   \<and> (phase (fold reconcilePass (replicate p 1) (SetDesired (Register k t))) = Failed
        \<longleftrightarrow> 513 \<le> p)
   \<and> (phase st = Failed \<longrightarrow>
        reconcilePass m st = st \<and> SetDesired st = st
        \<and> errorCounter (resetMap st) = 0 \<and> phase (resetMap st) = Idle)"
proof -
  let ?s0 = "SetDesired (Register k t)"
  have s0: "?s0 = \<lparr>kind = GetMapType k t, errorCounter = 0, phase = Scheduled\<rparr>"
    by (rule SetDesired_Register)
  have a: "phase st = Scheduled \<longrightarrow>
      reconcilePass 0 st = st\<lparr>errorCounter := 0, phase := Idle\<rparr>
      \<and> (0 < n \<longrightarrow> errorCounter (reconcilePass n st) = errorCounter st + n)"
    by (simp add: reconcilePass_def Let_def)
  have b: "phase (run (Register k t) evs) = Failed
        \<longleftrightarrow> maxSyncErrors < errorCounter (run (Register k t) evs)"
    by (rule run_ceiling) (simp add: Register_def maxSyncErrors_def)
  have total: "(sum_list gs \<le> 512 \<longrightarrow>
        fold reconcilePass gs ?s0 =
          \<lparr>kind = GetMapType k t, errorCounter = sum_list gs, phase = Scheduled\<rparr>)
      \<and> (512 < sum_list gs \<longrightarrow> phase (fold reconcilePass gs ?s0) = Failed)"
    if "\<forall>f\<in>set gs. 0 < f" for gs
    using failing_passes_total [OF that, of 0 "GetMapType k t"]
    unfolding s0 by (simp add: maxSyncErrors_def)
  have c: "(\<forall>f\<in>set fs. 0 < f) \<longrightarrow>
        (phase (fold reconcilePass fs ?s0) = Failed \<longleftrightarrow> 513 \<le> sum_list fs)
        \<and> (sum_list fs \<le> 512 \<longrightarrow>
             errorCounter (fold reconcilePass fs ?s0) = sum_list fs
             \<and> reconcilePass 0 (fold reconcilePass fs ?s0) = Register k t)"
  proof
    assume pos: "\<forall>f\<in>set fs. 0 < f"
    show "(phase (fold reconcilePass fs ?s0) = Failed \<longleftrightarrow> 513 \<le> sum_list fs)
        \<and> (sum_list fs \<le> 512 \<longrightarrow>
             errorCounter (fold reconcilePass fs ?s0) = sum_list fs
             \<and> reconcilePass 0 (fold reconcilePass fs ?s0) = Register k t)"
    proof (cases "sum_list fs \<le> 512")
      case True
      with total [OF pos] have eq: "fold reconcilePass fs ?s0 =
          \<lparr>kind = GetMapType k t, errorCounter = sum_list fs, phase = Scheduled\<rparr>"
        by simp
      from True show ?thesis
        unfolding eq by (simp add: reconcilePass_def Register_def)
    next
      case False
      with total [OF pos] have "phase (fold reconcilePass fs ?s0) = Failed" by simp
      with False show ?thesis by simp
    qed
  qed
  have d: "phase (fold reconcilePass (replicate p 1) ?s0) = Failed \<longleftrightarrow> 513 \<le> p"
  proof (cases "p \<le> 512")
    case True
    with total [of "replicate p 1"] have "fold reconcilePass (replicate p 1) ?s0 =
        \<lparr>kind = GetMapType k t, errorCounter = p, phase = Scheduled\<rparr>"
      by (simp add: sum_list_replicate)
    with True show ?thesis by simp
  next
    case False
    with total [of "replicate p 1"] have "phase (fold reconcilePass (replicate p 1) ?s0) = Failed"
      by (simp add: sum_list_replicate)
    with False show ?thesis by simp
  qed
  have e: "phase st = Failed \<longrightarrow>
        reconcilePass m st = st \<and> SetDesired st = st
        \<and> errorCounter (resetMap st) = 0 \<and> phase (resetMap st) = Idle"
    by (simp add: reconcilePass_def SetDesired_def resetMap_def)
  from a b c d e show ?thesis by (simp add: maxSyncErrors_def)
qed

theorem reconcile_ceiling_witness:
  "phase \<lparr>kind = MapTypeHash, errorCounter = 3, phase = Scheduled\<rparr> = Scheduled
   \<and> reconcilePass 0 \<lparr>kind = MapTypeHash, errorCounter = 3, phase = Scheduled\<rparr>
       = \<lparr>kind = MapTypeHash, errorCounter = 0, phase = Idle\<rparr>
   \<and> errorCounter (reconcilePass 4 \<lparr>kind = MapTypeHash, errorCounter = 3, phase = Scheduled\<rparr>) = 7
   \<and> (0::nat) < 200 \<and> (0::nat) < 300 \<and> (0::nat) < 13
   \<and> phase (fold reconcilePass [200, 300, 13] (SetDesired (Register MapTypeHash Map.empty))) = Failed
   \<and> (0::nat) < 500 \<and> (0::nat) < 12
   \<and> phase (fold reconcilePass [500, 12] (SetDesired (Register MapTypeHash Map.empty))) \<noteq> Failed
   \<and> errorCounter (fold reconcilePass [500, 12] (SetDesired (Register MapTypeHash Map.empty))) = 512
   \<and> reconcilePass 0 (fold reconcilePass [500, 12] (SetDesired (Register MapTypeHash Map.empty)))
       = Register MapTypeHash Map.empty
   \<and> phase (fold reconcilePass (replicate 513 1) (SetDesired (Register MapTypeHash Map.empty))) = Failed
   \<and> phase (fold reconcilePass (replicate 512 1) (SetDesired (Register MapTypeHash Map.empty))) \<noteq> Failed
   \<and> phase \<lparr>kind = MapTypeHash, errorCounter = 513, phase = Failed\<rparr> = Failed
   \<and> reconcilePass 5 \<lparr>kind = MapTypeHash, errorCounter = 513, phase = Failed\<rparr>
       = \<lparr>kind = MapTypeHash, errorCounter = 513, phase = Failed\<rparr>
   \<and> SetDesired \<lparr>kind = MapTypeHash, errorCounter = 513, phase = Failed\<rparr>
       = \<lparr>kind = MapTypeHash, errorCounter = 513, phase = Failed\<rparr>
   \<and> errorCounter (resetMap \<lparr>kind = MapTypeHash, errorCounter = 513, phase = Failed\<rparr>) = 0
   \<and> phase (resetMap \<lparr>kind = MapTypeHash, errorCounter = 513, phase = Failed\<rparr>) = Idle"
proof -
  note scheduled = reconcile_ceiling
    [where st = "\<lparr>kind = MapTypeHash, errorCounter = 3, phase = Scheduled\<rparr>" and n = 4
       and k = MapTypeHash and t = Map.empty and evs = "[]" and fs = "[200, 300, 13]"
       and p = 513 and m = 5]
  note failed = reconcile_ceiling
    [where st = "\<lparr>kind = MapTypeHash, errorCounter = 513, phase = Failed\<rparr>" and n = 4
       and k = MapTypeHash and t = Map.empty and evs = "[]" and fs = "[500, 12]"
       and p = 512 and m = 5]
  have pos1: "\<forall>f\<in>set [200, 300, 13 :: nat]. 0 < f" by simp
  have pos2: "\<forall>f\<in>set [500, 12 :: nat]. 0 < f" by simp
  from scheduled have a: "reconcilePass 0 \<lparr>kind = MapTypeHash, errorCounter = 3, phase = Scheduled\<rparr>
       = \<lparr>kind = MapTypeHash, errorCounter = 0, phase = Idle\<rparr>
     \<and> errorCounter (reconcilePass 4 \<lparr>kind = MapTypeHash, errorCounter = 3, phase = Scheduled\<rparr>) = 7"
    by (simp add: maxSyncErrors_def)
  from scheduled pos1
  have b: "phase (fold reconcilePass [200, 300, 13] (SetDesired (Register MapTypeHash Map.empty))) = Failed"
    by (simp add: maxSyncErrors_def)
  from failed pos2
  have c: "phase (fold reconcilePass [500, 12] (SetDesired (Register MapTypeHash Map.empty))) \<noteq> Failed
     \<and> errorCounter (fold reconcilePass [500, 12] (SetDesired (Register MapTypeHash Map.empty))) = 512
     \<and> reconcilePass 0 (fold reconcilePass [500, 12] (SetDesired (Register MapTypeHash Map.empty)))
         = Register MapTypeHash Map.empty"
    by (simp add: maxSyncErrors_def)
  from scheduled
  have d: "phase (fold reconcilePass (replicate 513 1) (SetDesired (Register MapTypeHash Map.empty))) = Failed"
    by (simp add: maxSyncErrors_def)
  from failed
  have e: "phase (fold reconcilePass (replicate 512 1) (SetDesired (Register MapTypeHash Map.empty))) \<noteq> Failed"
    by (simp add: maxSyncErrors_def)
  from failed have f: "reconcilePass 5 \<lparr>kind = MapTypeHash, errorCounter = 513, phase = Failed\<rparr>
       = \<lparr>kind = MapTypeHash, errorCounter = 513, phase = Failed\<rparr>
     \<and> SetDesired \<lparr>kind = MapTypeHash, errorCounter = 513, phase = Failed\<rparr>
       = \<lparr>kind = MapTypeHash, errorCounter = 513, phase = Failed\<rparr>
     \<and> errorCounter (resetMap \<lparr>kind = MapTypeHash, errorCounter = 513, phase = Failed\<rparr>) = 0
     \<and> phase (resetMap \<lparr>kind = MapTypeHash, errorCounter = 513, phase = Failed\<rparr>) = Idle"
    by (simp add: maxSyncErrors_def)
  from a pos1 b pos2 c d e f show ?thesis by simp
qed

end
